theory Spec2Isabelle
  imports Main "HOL-Library.Sublist" "HOL-Library.Word"
begin

section \<open>Values of the entity model (models.py)\<close>

text \<open>
  A \<^verbatim>\<open>datetime\<close> is a count of microseconds since the epoch.  The document store keeps
  a datetime with millisecond precision: the value that comes back from the store is the
  one written, rounded down to the millisecond.
\<close>

type_synonym datetime = int

definition bson_datetime :: "datetime \<Rightarrow> datetime" where
  "bson_datetime t = (t div 1000) * 1000"

text \<open>
  An \<^verbatim>\<open>ObjectId\<close> is its \<^verbatim>\<open>binary\<close> value, a list of bytes.  The driver generates a fresh
  one from 96 bits (time, random value, counter); \<^verbatim>\<open>str\<close> renders two hexadecimal digits
  for each byte.
\<close>

type_synonym objectid = "nat list"

definition ObjectId_generate :: "96 word \<Rightarrow> objectid" where
  "ObjectId_generate w = map (\<lambda>i. unat (take_bit 8 (drop_bit (8 * (11 - i)) w))) [0..<12]"

definition hex_digit :: "nat \<Rightarrow> char" where
  "hex_digit n = ''0123456789abcdef'' ! (n mod 16)"

definition ObjectId_str :: "objectid \<Rightarrow> string" where
  "ObjectId_str b = concat (map (\<lambda>n. [hex_digit (n div 16), hex_digit (n mod 16)]) b)"

text \<open>
  \<^verbatim>\<open>TodoBase\<close>, and \<^verbatim>\<open>Todo(TodoBase)\<close> with the identifier and the two timestamps.
  \<^verbatim>\<open>TodoCreate\<close> is \<^verbatim>\<open>TodoBase\<close>; a stored document and a \<^verbatim>\<open>TodoResponse\<close> carry the fields
  of \<^verbatim>\<open>Todo\<close>.
\<close>

record todo_base =
  title :: string
  description :: "string option"
  completed :: bool
  priority :: string
  due_date :: "datetime option"
  tags :: "string list"

record todo = todo_base +
  oid :: objectid
  created_at :: datetime
  updated_at :: datetime

text \<open>\<^verbatim>\<open>TodoUpdate\<close>: every field optional, \<^verbatim>\<open>None\<close> when the request leaves it out.\<close>

record todo_update =
  upd_title :: "string option"
  upd_description :: "string option"
  upd_completed :: "bool option"
  upd_priority :: "string option"
  upd_due_date :: "datetime option"
  upd_tags :: "string list option"

datatype error = ValueError | TypeError | OverflowError | OperationFailure | DuplicateKeyError

section \<open>ObjectId.is_valid\<close>

text \<open>
  \<^verbatim>\<open>ObjectId(s)\<close> on a string: the length must be 24 and \<^verbatim>\<open>bytes.fromhex(s)\<close> must
  succeed.  \<^verbatim>\<open>fromhex\<close> skips white space in front of a pair of hexadecimal digits and
  fails on any other character and on a digit without its partner.
\<close>

definition hex_val :: "char \<Rightarrow> nat option" where
  "hex_val c = (let n = (of_char c :: nat) in
     if 48 \<le> n \<and> n \<le> 57 then Some (n - 48)
     else if 97 \<le> n \<and> n \<le> 102 then Some (n - 87)
     else if 65 \<le> n \<and> n \<le> 70 then Some (n - 55)
     else None)"

definition py_isspace :: "char \<Rightarrow> bool" where
  "py_isspace c = (let n = (of_char c :: nat) in n = 32 \<or> (9 \<le> n \<and> n \<le> 13))"

fun fromhex :: "string \<Rightarrow> nat list option" where
  "fromhex [] = Some []"
| "fromhex [c] = (if py_isspace c then Some [] else None)"
| "fromhex (c # d # ds) =
     (if py_isspace c then fromhex (d # ds)
      else case hex_val c of
        None \<Rightarrow> None
      | Some hi \<Rightarrow>
         (case hex_val d of
            None \<Rightarrow> None
          | Some lo \<Rightarrow> map_option (\<lambda>bs. (16 * hi + lo) # bs) (fromhex ds)))"

definition ObjectId :: "string \<Rightarrow> objectid option" where
  "ObjectId s = (if length s = 24 then fromhex s else None)"

definition is_valid :: "string \<Rightarrow> bool" where
  "is_valid s = (s \<noteq> [] \<and> ObjectId s \<noteq> None)"

section \<open>The document store\<close>

text \<open>
  The collection is the list of its documents in natural order.  The operations are the
  ones crud.py calls on it.
\<close>

type_synonym collection = "todo list"

definition find_one :: "collection \<Rightarrow> objectid \<Rightarrow> todo option" where
  "find_one coll i = find (\<lambda>d. oid d = i) coll"

definition insert_one :: "collection \<Rightarrow> todo \<Rightarrow> error + collection" where
  "insert_one coll d =
     (if find_one coll (oid d) \<noteq> None then Inl DuplicateKeyError else Inr (coll @ [d]))"

text \<open>
  \<^verbatim>\<open>update_one({"_id": i}, {"$set": ...})\<close> applies the change to the first document with
  the identifier; \<^verbatim>\<open>modified_count\<close> is 1 when that document is different afterwards and 0
  when no document matched or the change left it as it was.
\<close>

fun update_one :: "collection \<Rightarrow> objectid \<Rightarrow> (todo \<Rightarrow> todo) \<Rightarrow> nat \<times> collection" where
  "update_one [] i f = (0, [])"
| "update_one (d # ds) i f =
     (if oid d = i then ((if f d = d then 0 else 1), f d # ds)
      else (case update_one ds i f of (n, ds') \<Rightarrow> (n, d # ds')))"

fun delete_one :: "collection \<Rightarrow> objectid \<Rightarrow> nat \<times> collection" where
  "delete_one [] i = (0, [])"
| "delete_one (d # ds) i =
     (if oid d = i then (1, ds)
      else (case delete_one ds i of (n, ds') \<Rightarrow> (n, d # ds')))"

subsection \<open>The regular-expression operator of the store\<close>

text \<open>
  \<^verbatim>\<open>{"$regex": p, "$options": "i"}\<close> is evaluated by the store, not by this repository:
  the operator is a parameter of the model.  An engine takes the pattern; it answers
  \<open>None\<close> when the store refuses the pattern, and the query then fails with
  \<^verbatim>\<open>OperationFailure\<close>; otherwise it answers the predicate that tells whether a string has
  a match of the pattern at some position, letters compared without case.
\<close>

type_synonym regex_engine = "string \<Rightarrow> (string \<Rightarrow> bool) option"

subsection \<open>Filters\<close>

text \<open>
  \<open>filter_dict\<close> has the three keys the query builder of crud.py may set:
  \<^verbatim>\<open>completed\<close>, \<^verbatim>\<open>priority\<close> and \<^verbatim>\<open>$or\<close> (the regular expression on title and on
  description).  A key that is not set is \<open>None\<close>.
\<close>

record filter_dict =
  f_completed :: "bool option"
  f_priority :: "string option"
  f_or_regex :: "string option"

definition build_filter :: "bool option \<Rightarrow> string option \<Rightarrow> string option \<Rightarrow> filter_dict" where
  "build_filter completed_q priority_q search_q =
     \<lparr> f_completed = completed_q,
       f_priority = (case priority_q of None \<Rightarrow> None
                     | Some p \<Rightarrow> if p \<noteq> [] then Some p else None),
       f_or_regex = (case search_q of None \<Rightarrow> None
                     | Some s \<Rightarrow> if s \<noteq> [] then Some s else None) \<rparr>"

text \<open>A field that is null does not match a regular expression.\<close>

definition field_regex :: "(string \<Rightarrow> bool) \<Rightarrow> string option \<Rightarrow> bool" where
  "field_regex m v = (case v of None \<Rightarrow> False | Some s \<Rightarrow> m s)"

definition doc_matches :: "filter_dict \<Rightarrow> (string \<Rightarrow> bool) option \<Rightarrow> todo \<Rightarrow> bool" where
  "doc_matches fd mo d =
     ((case f_completed fd of None \<Rightarrow> True | Some c \<Rightarrow> completed d = c) \<and>
      (case f_priority fd of None \<Rightarrow> True | Some p \<Rightarrow> priority d = p) \<and>
      (case mo of None \<Rightarrow> True
       | Some m \<Rightarrow> field_regex m (Some (title d)) \<or> field_regex m (description d)))"

text \<open>
  The documents of the collection that match a filter, in natural order; the query fails
  when the store refuses the regular expression.
\<close>

definition find_docs :: "regex_engine \<Rightarrow> collection \<Rightarrow> filter_dict \<Rightarrow> error + todo list" where
  "find_docs rx coll fd =
     (case f_or_regex fd of
        None \<Rightarrow> Inr (filter (doc_matches fd None) coll)
      | Some p \<Rightarrow>
         (case rx p of
            None \<Rightarrow> Inl OperationFailure
          | Some m \<Rightarrow> Inr (filter (doc_matches fd (Some m)) coll)))"

definition count_documents :: "regex_engine \<Rightarrow> collection \<Rightarrow> filter_dict \<Rightarrow> error + int" where
  "count_documents rx coll fd = map_sum id (\<lambda>ds. int (length ds)) (find_docs rx coll fd)"

text \<open>
  \<^verbatim>\<open>sort(key, -1)\<close>: descending in the key.  The store fixes no order among documents
  with equal keys; the model keeps their natural order.
\<close>

definition sort_desc :: "(todo \<Rightarrow> datetime) \<Rightarrow> todo list \<Rightarrow> todo list" where
  "sort_desc k ds = sort_key (\<lambda>d. - k d) ds"

text \<open>
  The cursor of \<^verbatim>\<open>find(fd).skip(skip).limit(limit).sort(key, -1)\<close> read with
  \<^verbatim>\<open>to_list(length)\<close>.  \<^verbatim>\<open>skip\<close> refuses a negative number; a cursor limit of 0 is no
  limit; \<^verbatim>\<open>to_list\<close> refuses a negative length and returns at most \<^verbatim>\<open>length\<close> documents,
  all of them when the length is \<^verbatim>\<open>None\<close>.  The query carries skip and limit as integers
  of at most 64 bits: a larger number raises \<^verbatim>\<open>OverflowError\<close> when the query is encoded,
  before the store sees it.
\<close>

definition int64_max :: int where
  "int64_max = 9223372036854775807"

definition cursor_to_list ::
  "regex_engine \<Rightarrow> collection \<Rightarrow> filter_dict \<Rightarrow> int \<Rightarrow> int \<Rightarrow> (todo \<Rightarrow> datetime) \<Rightarrow> int option
     \<Rightarrow> error + todo list" where
  "cursor_to_list rx coll fd skip lim k len =
     (if skip < 0 then Inl ValueError
      else if (case len of None \<Rightarrow> False | Some n \<Rightarrow> n < 0) then Inl ValueError
      else if int64_max < skip \<or> int64_max < \<bar>lim\<bar> then Inl OverflowError
      else case find_docs rx coll fd of
        Inl e \<Rightarrow> Inl e
      | Inr ds \<Rightarrow>
         (let sorted_ds = sort_desc k ds;
              skipped = drop (nat skip) sorted_ds;
              limited = (if lim = 0 then skipped else take (nat \<bar>lim\<bar>) skipped)
          in Inr (case len of None \<Rightarrow> limited | Some n \<Rightarrow> take (nat n) limited)))"

section \<open>The data access layer (crud.py, class TodoCRUD)\<close>

text \<open>
  A reading of the clock (\<^verbatim>\<open>datetime.utcnow()\<close>) and the identifier the driver generates
  are arguments of the operation that uses them.  An operation that changes the
  collection returns the new collection beside its result.
\<close>

definition get_todo :: "collection \<Rightarrow> string \<Rightarrow> todo option" where
  "get_todo coll todo_id =
     (case (if is_valid todo_id then ObjectId todo_id else None) of
        None \<Rightarrow> None
      | Some i \<Rightarrow> find_one coll i)"

text \<open>
  \<open>create_todo\<close> reads the clock twice, \<open>now1\<close> for \<^verbatim>\<open>created_at\<close> and \<open>now2\<close> for
  \<^verbatim>\<open>updated_at\<close>, inserts the document and reads it back.
\<close>

definition todo_dict :: "todo_base \<Rightarrow> objectid \<Rightarrow> datetime \<Rightarrow> datetime \<Rightarrow> todo" where
  "todo_dict t i c u =
     \<lparr> title = title t, description = description t, completed = completed t,
       priority = priority t, due_date = map_option bson_datetime (due_date t),
       tags = tags t, oid = i, created_at = bson_datetime c, updated_at = bson_datetime u \<rparr>"

definition create_todo ::
  "collection \<Rightarrow> 96 word \<Rightarrow> datetime \<Rightarrow> datetime \<Rightarrow> todo_base \<Rightarrow> error + (todo \<times> collection)" where
  "create_todo coll w now1 now2 t =
     (let inserted_id = ObjectId_generate w in
      case insert_one coll (todo_dict t inserted_id now1 now2) of
        Inl e \<Rightarrow> Inl e
      | Inr coll' \<Rightarrow>
         (case find_one coll' inserted_id of
            None \<Rightarrow> Inl TypeError
          | Some created \<Rightarrow> Inr (created, coll')))"

definition get_todos ::
  "regex_engine \<Rightarrow> collection \<Rightarrow> int \<Rightarrow> int \<Rightarrow> bool option \<Rightarrow> string option \<Rightarrow> string option
     \<Rightarrow> error + todo list" where
  "get_todos rx coll skip lim completed_q priority_q search_q =
     cursor_to_list rx coll (build_filter completed_q priority_q search_q) skip lim created_at
       (Some lim)"

definition get_todos_count ::
  "regex_engine \<Rightarrow> collection \<Rightarrow> bool option \<Rightarrow> string option \<Rightarrow> string option \<Rightarrow> error + int" where
  "get_todos_count rx coll completed_q priority_q search_q =
     count_documents rx coll (build_filter completed_q priority_q search_q)"

text \<open>
  \<open>update_dict\<close>: the fields of the request that are not \<^verbatim>\<open>None\<close>; \<open>set_fields\<close> is the
  \<^verbatim>\<open>$set\<close> of those fields and of \<^verbatim>\<open>updated_at\<close>.
\<close>

definition update_dict_empty :: "todo_update \<Rightarrow> bool" where
  "update_dict_empty u =
     (upd_title u = None \<and> upd_description u = None \<and> upd_completed u = None \<and>
      upd_priority u = None \<and> upd_due_date u = None \<and> upd_tags u = None)"

definition set_fields :: "todo_update \<Rightarrow> datetime \<Rightarrow> todo \<Rightarrow> todo" where
  "set_fields u now d =
     d\<lparr> title := (case upd_title u of None \<Rightarrow> title d | Some v \<Rightarrow> v),
        description := (case upd_description u of None \<Rightarrow> description d | Some v \<Rightarrow> Some v),
        completed := (case upd_completed u of None \<Rightarrow> completed d | Some v \<Rightarrow> v),
        priority := (case upd_priority u of None \<Rightarrow> priority d | Some v \<Rightarrow> v),
        due_date := (case upd_due_date u of None \<Rightarrow> due_date d | Some v \<Rightarrow> Some (bson_datetime v)),
        tags := (case upd_tags u of None \<Rightarrow> tags d | Some v \<Rightarrow> v),
        updated_at := bson_datetime now \<rparr>"

definition update_todo ::
  "collection \<Rightarrow> datetime \<Rightarrow> string \<Rightarrow> todo_update \<Rightarrow> todo option \<times> collection" where
  "update_todo coll now todo_id u =
     (if \<not> is_valid todo_id then (None, coll)
      else if update_dict_empty u then (get_todo coll todo_id, coll)
      else case ObjectId todo_id of
        None \<Rightarrow> (None, coll)
      | Some i \<Rightarrow>
         (case update_one coll i (set_fields u now) of
            (modified_count, coll') \<Rightarrow>
              if modified_count \<noteq> 0 then (get_todo coll' todo_id, coll') else (None, coll')))"

definition delete_todo :: "collection \<Rightarrow> string \<Rightarrow> bool \<times> collection" where
  "delete_todo coll todo_id =
     (if \<not> is_valid todo_id then (False, coll)
      else case ObjectId todo_id of
        None \<Rightarrow> (False, coll)
      | Some i \<Rightarrow> (case delete_one coll i of (deleted_count, coll') \<Rightarrow> (deleted_count > 0, coll')))"

definition toggle_todo :: "collection \<Rightarrow> datetime \<Rightarrow> string \<Rightarrow> todo option \<times> collection" where
  "toggle_todo coll now todo_id =
     (if \<not> is_valid todo_id then (None, coll)
      else case get_todo coll todo_id of
        None \<Rightarrow> (None, coll)
      | Some t \<Rightarrow>
         (let new_status = \<not> completed t in
          case ObjectId todo_id of
            None \<Rightarrow> (None, coll)
          | Some i \<Rightarrow>
             (case update_one coll i
                     (\<lambda>d. d\<lparr> completed := new_status, updated_at := bson_datetime now \<rparr>) of
                (modified_count, coll') \<Rightarrow>
                  if modified_count \<noteq> 0 then (get_todo coll' todo_id, coll') else (None, coll'))))"

definition get_todos_by_tag :: "collection \<Rightarrow> string \<Rightarrow> todo list" where
  "get_todos_by_tag coll tag = sort_desc created_at (filter (\<lambda>d. tag \<in> set (tags d)) coll)"

definition get_completed_todos :: "collection \<Rightarrow> todo list" where
  "get_completed_todos coll = sort_desc updated_at (filter (\<lambda>d. completed d = True) coll)"

definition get_pending_todos :: "collection \<Rightarrow> todo list" where
  "get_pending_todos coll = sort_desc created_at (filter (\<lambda>d. completed d = False) coll)"

section \<open>The REST front end (main.py)\<close>

record todo_list_response =
  todos :: "todo list"
  total :: int
  page :: int
  limit :: int
  has_next :: bool
  has_prev :: bool

text \<open>\<open>ErrorDetail e\<close> is the body whose detail is the text of the exception \<open>e\<close>.\<close>

datatype body =
    Health
  | TodoBody todo
  | TodoListBody "todo list"
  | PageBody todo_list_response
  | StatsBody int int int int int int
  | Detail string
  | ErrorDetail error
  | ValidationErrors
  | NoBody

datatype response = Response nat body

subsection \<open>Routing\<close>

text \<open>
  A path is the list of its segments.  A route's path is a list of fixed segments and
  parameters; a parameter matches one segment that is not empty.  The router tries the
  routes in the order of their declaration and hands the request to the first whose path
  and method both match; when paths match but no method does the answer is 405, when no
  path matches it is 404.  The redirect of a path with a trailing slash is not modelled.
\<close>

datatype http_method = GET | POST | PUT | DELETE | PATCH

datatype path_seg = Fixed string | Param

datatype endpoint =
    Root | CreateTodo | GetTodos | GetTodo | UpdateTodo | DeleteTodo | ToggleTodo
  | GetCompletedTodos | GetPendingTodos | GetTodosByTag | GetStats

definition routes :: "(http_method \<times> path_seg list \<times> endpoint) list" where
  "routes =
     [ (GET, [], Root),
       (POST, [Fixed ''todos''], CreateTodo),
       (GET, [Fixed ''todos''], GetTodos),
       (GET, [Fixed ''todos'', Param], GetTodo),
       (PUT, [Fixed ''todos'', Param], UpdateTodo),
       (DELETE, [Fixed ''todos'', Param], DeleteTodo),
       (PATCH, [Fixed ''todos'', Param, Fixed ''toggle''], ToggleTodo),
       (GET, [Fixed ''todos'', Fixed ''completed''], GetCompletedTodos),
       (GET, [Fixed ''todos'', Fixed ''pending''], GetPendingTodos),
       (GET, [Fixed ''todos'', Fixed ''tag'', Param], GetTodosByTag),
       (GET, [Fixed ''stats''], GetStats) ]"

fun path_match :: "path_seg list \<Rightarrow> string list \<Rightarrow> string list option" where
  "path_match [] [] = Some []"
| "path_match [] (s # ss) = None"
| "path_match (p # ps) [] = None"
| "path_match (Fixed f # ps) (s # ss) = (if s = f then path_match ps ss else None)"
| "path_match (Param # ps) (s # ss) =
     (if s \<noteq> [] then map_option (\<lambda>vs. s # vs) (path_match ps ss) else None)"

datatype resolution = Full endpoint "string list" | Partial | NoMatch

fun resolve_in ::
  "(http_method \<times> path_seg list \<times> endpoint) list \<Rightarrow> http_method \<Rightarrow> string list \<Rightarrow> bool \<Rightarrow> resolution" where
  "resolve_in [] m path partial = (if partial then Partial else NoMatch)"
| "resolve_in ((m', pat, e) # rs) m path partial =
     (case path_match pat path of
        None \<Rightarrow> resolve_in rs m path partial
      | Some vs \<Rightarrow> if m' = m then Full e vs else resolve_in rs m path True)"

definition resolve :: "http_method \<Rightarrow> string list \<Rightarrow> resolution" where
  "resolve m path = resolve_in routes m path False"

subsection \<open>Validation of requests\<close>

definition priority_pattern :: "string \<Rightarrow> bool" where
  "priority_pattern p = (p = ''low'' \<or> p = ''medium'' \<or> p = ''high'')"

definition TodoCreate_valid :: "todo_base \<Rightarrow> bool" where
  "TodoCreate_valid t =
     (1 \<le> length (title t) \<and> length (title t) \<le> 200 \<and>
      (case description t of None \<Rightarrow> True | Some s \<Rightarrow> length s \<le> 1000) \<and>
      priority_pattern (priority t))"

definition TodoUpdate_valid :: "todo_update \<Rightarrow> bool" where
  "TodoUpdate_valid u =
     ((case upd_title u of None \<Rightarrow> True | Some s \<Rightarrow> 1 \<le> length s \<and> length s \<le> 200) \<and>
      (case upd_description u of None \<Rightarrow> True | Some s \<Rightarrow> length s \<le> 1000) \<and>
      (case upd_priority u of None \<Rightarrow> True | Some p \<Rightarrow> priority_pattern p))"

subsection \<open>Handlers\<close>

definition create_todo_route ::
  "collection \<Rightarrow> 96 word \<Rightarrow> datetime \<Rightarrow> datetime \<Rightarrow> todo_base option \<Rightarrow> response \<times> collection" where
  "create_todo_route coll w now1 now2 b =
     (case b of
        None \<Rightarrow> (Response 422 ValidationErrors, coll)
      | Some t \<Rightarrow>
         if \<not> TodoCreate_valid t then (Response 422 ValidationErrors, coll)
         else (case create_todo coll w now1 now2 t of
                 Inl e \<Rightarrow> (Response 400 (ErrorDetail e), coll)
               | Inr (created, coll') \<Rightarrow> (Response 201 (TodoBody created), coll')))"

text \<open>
  \<^verbatim>\<open>GET /todos\<close>: \<^verbatim>\<open>page\<close> (default 1, at least 1), \<^verbatim>\<open>limit\<close> (default 10, from 1 to 100)
  and \<^verbatim>\<open>priority\<close> (one of the three values) are checked before the handler runs.
\<close>

definition get_todos_route ::
  "regex_engine \<Rightarrow> collection \<Rightarrow> int option \<Rightarrow> int option \<Rightarrow> bool option \<Rightarrow> string option
     \<Rightarrow> string option \<Rightarrow> response" where
  "get_todos_route rx coll page_q limit_q completed_q priority_q search_q =
     (let pg = (case page_q of None \<Rightarrow> 1 | Some n \<Rightarrow> n);
          lim = (case limit_q of None \<Rightarrow> 10 | Some n \<Rightarrow> n)
      in if pg < 1 \<or> lim < 1 \<or> 100 < lim \<or>
            (case priority_q of None \<Rightarrow> False | Some p \<Rightarrow> \<not> priority_pattern p)
         then Response 422 ValidationErrors
         else
           (let skip = (pg - 1) * lim in
            case get_todos rx coll skip lim completed_q priority_q search_q of
              Inl e \<Rightarrow> Response 500 (ErrorDetail e)
            | Inr ts \<Rightarrow>
               (case get_todos_count rx coll completed_q priority_q search_q of
                  Inl e \<Rightarrow> Response 500 (ErrorDetail e)
                | Inr n \<Rightarrow>
                   Response 200 (PageBody
                     \<lparr> todos = ts, total = n, page = pg, limit = lim,
                       has_next = (skip + lim < n), has_prev = (pg > 1) \<rparr>))))"

definition get_todo_route :: "collection \<Rightarrow> string \<Rightarrow> response" where
  "get_todo_route coll todo_id =
     (case get_todo coll todo_id of
        None \<Rightarrow> Response 404 (Detail ''Todo not found'')
      | Some t \<Rightarrow> Response 200 (TodoBody t))"

definition update_todo_route ::
  "collection \<Rightarrow> datetime \<Rightarrow> string \<Rightarrow> todo_update option \<Rightarrow> response \<times> collection" where
  "update_todo_route coll now todo_id b =
     (case b of
        None \<Rightarrow> (Response 400 (Detail ''Update data is required''), coll)
      | Some u \<Rightarrow>
         if \<not> TodoUpdate_valid u then (Response 422 ValidationErrors, coll)
         else (case update_todo coll now todo_id u of
                 (None, coll') \<Rightarrow> (Response 404 (Detail ''Todo not found''), coll')
               | (Some t, coll') \<Rightarrow> (Response 200 (TodoBody t), coll')))"

definition delete_todo_route :: "collection \<Rightarrow> string \<Rightarrow> response \<times> collection" where
  "delete_todo_route coll todo_id =
     (case delete_todo coll todo_id of
        (success, coll') \<Rightarrow>
          if \<not> success then (Response 404 (Detail ''Todo not found''), coll')
          else (Response 204 NoBody, coll'))"

definition toggle_todo_route :: "collection \<Rightarrow> datetime \<Rightarrow> string \<Rightarrow> response \<times> collection" where
  "toggle_todo_route coll now todo_id =
     (case toggle_todo coll now todo_id of
        (None, coll') \<Rightarrow> (Response 404 (Detail ''Todo not found''), coll')
      | (Some t, coll') \<Rightarrow> (Response 200 (TodoBody t), coll'))"

text \<open>
  \<^verbatim>\<open>GET /stats\<close>: the six counts; the completion rate, a floating-point number derived from
  two of them, is not part of the model.
\<close>

definition get_stats_route :: "regex_engine \<Rightarrow> collection \<Rightarrow> response" where
  "get_stats_route rx coll =
     (case get_todos_count rx coll None None None of
        Inl e \<Rightarrow> Response 500 (ErrorDetail e)
      | Inr t \<Rightarrow>
     (case get_todos_count rx coll (Some True) None None of
        Inl e \<Rightarrow> Response 500 (ErrorDetail e)
      | Inr c \<Rightarrow>
     (case get_todos_count rx coll (Some False) None None of
        Inl e \<Rightarrow> Response 500 (ErrorDetail e)
      | Inr p \<Rightarrow>
     (case get_todos_count rx coll None (Some ''high'') None of
        Inl e \<Rightarrow> Response 500 (ErrorDetail e)
      | Inr h \<Rightarrow>
     (case get_todos_count rx coll None (Some ''medium'') None of
        Inl e \<Rightarrow> Response 500 (ErrorDetail e)
      | Inr m \<Rightarrow>
     (case get_todos_count rx coll None (Some ''low'') None of
        Inl e \<Rightarrow> Response 500 (ErrorDetail e)
      | Inr l \<Rightarrow> Response 200 (StatsBody t c p h m l)))))))"

subsection \<open>The application\<close>

record request =
  req_method :: http_method
  req_path :: "string list"
  q_page :: "int option"
  q_limit :: "int option"
  q_completed :: "bool option"
  q_priority :: "string option"
  q_search :: "string option"
  body_create :: "todo_base option"
  body_update :: "todo_update option"

text \<open>
  What the request meets outside the application: the regular-expression operator of the
  store, the identifier the driver would generate and the readings of the clock.
\<close>

record env =
  env_regex :: regex_engine
  env_oid :: "96 word"
  env_now1 :: datetime
  env_now2 :: datetime

text \<open>The value of the path parameter of a route that has one.\<close>

definition path_param :: "string list \<Rightarrow> string" where
  "path_param vs = (case vs of [] \<Rightarrow> [] | v # _ \<Rightarrow> v)"

fun dispatch :: "collection \<Rightarrow> env \<Rightarrow> request \<Rightarrow> endpoint \<Rightarrow> string list \<Rightarrow> response \<times> collection" where
  "dispatch coll ev rq Root vs = (Response 200 Health, coll)"
| "dispatch coll ev rq CreateTodo vs =
     create_todo_route coll (env_oid ev) (env_now1 ev) (env_now2 ev) (body_create rq)"
| "dispatch coll ev rq GetTodos vs =
     (get_todos_route (env_regex ev) coll (q_page rq) (q_limit rq) (q_completed rq) (q_priority rq)
        (q_search rq), coll)"
| "dispatch coll ev rq GetTodo vs = (get_todo_route coll (path_param vs), coll)"
| "dispatch coll ev rq UpdateTodo vs =
     update_todo_route coll (env_now1 ev) (path_param vs) (body_update rq)"
| "dispatch coll ev rq DeleteTodo vs = delete_todo_route coll (path_param vs)"
| "dispatch coll ev rq ToggleTodo vs = toggle_todo_route coll (env_now1 ev) (path_param vs)"
| "dispatch coll ev rq GetCompletedTodos vs =
     (Response 200 (TodoListBody (get_completed_todos coll)), coll)"
| "dispatch coll ev rq GetPendingTodos vs =
     (Response 200 (TodoListBody (get_pending_todos coll)), coll)"
| "dispatch coll ev rq GetTodosByTag vs =
     (Response 200 (TodoListBody (get_todos_by_tag coll (path_param vs))), coll)"
| "dispatch coll ev rq GetStats vs = (get_stats_route (env_regex ev) coll, coll)"

definition app :: "collection \<Rightarrow> env \<Rightarrow> request \<Rightarrow> response \<times> collection" where
  "app coll ev rq =
     (case resolve (req_method rq) (req_path rq) of
        NoMatch \<Rightarrow> (Response 404 (Detail ''Not Found''), coll)
      | Partial \<Rightarrow> (Response 405 (Detail ''Method Not Allowed''), coll)
      | Full e vs \<Rightarrow> dispatch coll ev rq e vs)"

definition get_request :: "string list \<Rightarrow> request" where
  "get_request path =
     \<lparr> req_method = GET, req_path = path, q_page = None, q_limit = None, q_completed = None,
       q_priority = None, q_search = None, body_create = None, body_update = None \<rparr>"

section \<open>The tool front end (mcp_server.py)\<close>

text \<open>
  The tool \<^verbatim>\<open>get_todos\<close> checks none of its arguments; any exception becomes the
  dictionary with the key \<^verbatim>\<open>error\<close>, here \<open>Inl\<close>.
\<close>

definition mcp_get_todos ::
  "regex_engine \<Rightarrow> collection \<Rightarrow> int \<Rightarrow> int \<Rightarrow> bool option \<Rightarrow> string option \<Rightarrow> string option
     \<Rightarrow> error + todo_list_response" where
  "mcp_get_todos rx coll page_q limit_q completed_q priority_q search_q =
     (let skip = (page_q - 1) * limit_q in
      case get_todos rx coll skip limit_q completed_q priority_q search_q of
        Inl e \<Rightarrow> Inl e
      | Inr ts \<Rightarrow>
         (case get_todos_count rx coll completed_q priority_q search_q of
            Inl e \<Rightarrow> Inl e
          | Inr n \<Rightarrow>
             Inr \<lparr> todos = ts, total = n, page = page_q, limit = limit_q,
                   has_next = (skip + limit_q < n), has_prev = (page_q > 1) \<rparr>))"

section \<open>The specification's words\<close>

text \<open>
  The specification's reading of \<^verbatim>\<open>search\<close>: the search string is contained in the text as
  a contiguous substring, letters compared without case; a record is selected when its
  title or its description contains it.  Strings are sequences of ASCII characters.
\<close>

definition to_lower :: "char \<Rightarrow> char" where
  "to_lower c =
     (case map_of (zip ''ABCDEFGHIJKLMNOPQRSTUVWXYZ'' ''abcdefghijklmnopqrstuvwxyz'') c of
        None \<Rightarrow> c
      | Some l \<Rightarrow> l)"



text \<open>
  A search string with no metacharacter of regular expressions: ASCII characters other
  than NUL and the metacharacters.
\<close>

definition metachars :: "char list" where
  "metachars = CHR 0x5C # ''^$.|?*+()[]{}''"




text \<open>
  Every identifier in the collection comes from the driver and has 12 bytes;
  \<open>create_todo\<close>, \<open>update_todo\<close>, \<open>delete_todo\<close> and \<open>toggle_todo\<close> keep it so.
\<close>

definition stored_ids :: "collection \<Rightarrow> bool" where
  "stored_ids coll = list_all (\<lambda>d. length (oid d) = 12) coll"

section \<open>Sample data\<close>

text \<open>
  A sample engine for the examples.  It knows the patterns of ordinary characters, each
  matching itself without regard to case, and dots, each matching any character except
  the line feed; it refuses every other pattern.  On the patterns it knows it does what
  the store's operator does.  It stands in for that operator in the examples only; no
  theorem about every engine depends on it.
\<close>

datatype regex_item = Lit char | AnyChar

fun sample_compile :: "string \<Rightarrow> regex_item list option" where
  "sample_compile [] = Some []"
| "sample_compile (c # cs) =
     (if c = CHR ''.'' then map_option (\<lambda>r. AnyChar # r) (sample_compile cs)
      else if c \<in> set metachars then None
      else map_option (\<lambda>r. Lit c # r) (sample_compile cs))"

fun item_matches :: "regex_item \<Rightarrow> char \<Rightarrow> bool" where
  "item_matches (Lit c) x = (to_lower x = to_lower c)"
| "item_matches AnyChar x = (x \<noteq> CHR 0x0A)"

fun match_here :: "regex_item list \<Rightarrow> string \<Rightarrow> bool" where
  "match_here [] s = True"
| "match_here (i # is) [] = False"
| "match_here (i # is) (x # xs) = (item_matches i x \<and> match_here is xs)"

fun regex_search :: "regex_item list \<Rightarrow> string \<Rightarrow> bool" where
  "regex_search r [] = match_here r []"
| "regex_search r (x # xs) = (match_here r (x # xs) \<or> regex_search r xs)"

definition sample_engine :: regex_engine where
  "sample_engine p = map_option regex_search (sample_compile p)"


definition milk_id :: string where
  "milk_id = ''000000000000000000000001''"

definition milk :: todo where
  "milk = \<lparr> title = ''Buy Milk'', description = None, completed = False, priority = ''high'',
            due_date = None, tags = [], oid = [0, 0, 0, 0, 0, 0, 0, 0, 0, 0, 0, 1],
            created_at = 1000, updated_at = 1000 \<rparr>"

definition eggs_id :: string where
  "eggs_id = ''000000000000000000000002''"

definition eggs :: todo where
  "eggs = \<lparr> title = ''Buy eggs'', description = Some ''a dozen'', completed = True,
            priority = ''low'', due_date = None, tags = [''shop''],
            oid = [0, 0, 0, 0, 0, 0, 0, 0, 0, 0, 0, 2], created_at = 2000, updated_at = 3000 \<rparr>"

definition no_update :: todo_update where
  "no_update = \<lparr> upd_title = None, upd_description = None, upd_completed = None,
                 upd_priority = None, upd_due_date = None, upd_tags = None \<rparr>"

definition milk_request :: todo_base where
  "milk_request = \<lparr> title = ''Buy milk'', description = None, completed = False,
                    priority = ''high'', due_date = None, tags = [] \<rparr>"

definition milk_created :: todo where
  "milk_created = todo_dict milk_request (ObjectId_generate 1) 999 1001"

definition same_title :: todo_update where
  "same_title = no_update\<lparr>upd_title := Some ''Buy Milk''\<rparr>"

definition raise_priority :: todo_update where
  "raise_priority = no_update\<lparr>upd_priority := Some ''high''\<rparr>"

definition numbered :: "nat \<Rightarrow> todo" where
  "numbered k = milk\<lparr> oid := [0, 0, 0, 0, 0, 0, 0, 0, 0, 0, 0, k], created_at := 1000 * int k,
                      updated_at := 1000 * int k \<rparr>"

definition five_todos :: collection where
  "five_todos = [milk, eggs, numbered 3, numbered 4, numbered 5]"

section \<open>Facts about the store\<close>

lemma ObjectId_milk_id: "ObjectId milk_id = Some (oid milk)"
  by (simp add: ObjectId_def milk_id_def milk_def hex_val_def py_isspace_def)

lemma ObjectId_eggs_id: "ObjectId eggs_id = Some (oid eggs)"
  by (simp add: ObjectId_def eggs_id_def eggs_def hex_val_def py_isspace_def)

lemma is_valid_milk_id: "is_valid milk_id"
  using ObjectId_milk_id by (simp add: is_valid_def milk_id_def)

lemma is_valid_eggs_id: "is_valid eggs_id"
  using ObjectId_eggs_id by (simp add: is_valid_def eggs_id_def)

lemma not_valid_completed: "\<not> is_valid ''completed''"
  by (simp add: is_valid_def ObjectId_def)

lemma not_valid_pending: "\<not> is_valid ''pending''"
  by (simp add: is_valid_def ObjectId_def)

lemma oid_milk_eggs: "oid milk \<noteq> oid eggs"
  by (simp add: milk_def eggs_def)

lemma get_todo_Some_iff:
  "get_todo coll tid = Some d \<longleftrightarrow>
     (\<exists>i. is_valid tid \<and> ObjectId tid = Some i \<and> find_one coll i = Some d)"
  by (auto simp: get_todo_def is_valid_def split: option.splits)

lemma get_todo_invalid: "\<not> is_valid tid \<Longrightarrow> get_todo coll tid = None"
  by (simp add: get_todo_def)

lemma find_one_oid: "find_one coll i = Some d \<Longrightarrow> oid d = i"
  by (induction coll) (auto simp: find_one_def split: if_splits)



lemma update_one_found:
  "find_one coll i = Some d \<Longrightarrow> fst (update_one coll i f) = (if f d = d then 0 else 1)"
  by (induction coll) (auto simp: find_one_def split: if_splits prod.splits)

lemma update_one_find:
  "(\<And>d. oid (f d) = oid d) \<Longrightarrow>
     find_one (snd (update_one coll i f)) j =
       (if j = i then map_option f (find_one coll i) else find_one coll j)"
  by (induction coll) (auto simp: find_one_def split: if_splits prod.splits)

lemma update_one_length: "length (snd (update_one coll i f)) = length coll"
  by (induction coll) (auto split: prod.splits)

lemma get_todo_milk: "get_todo [milk, eggs] milk_id = Some milk"
  using is_valid_milk_id ObjectId_milk_id by (simp add: get_todo_def find_one_def)

lemma get_todo_eggs: "get_todo [milk, eggs] eggs_id = Some eggs"
  using is_valid_eggs_id ObjectId_eggs_id oid_milk_eggs by (simp add: get_todo_def find_one_def)

lemma find_one_append_new:
  "find_one coll (oid d) = None \<Longrightarrow> find_one (coll @ [d]) (oid d) = Some d"
  by (induction coll) (auto simp: find_one_def split: if_splits)

lemma ObjectId_str_length: "length (ObjectId_str b) = 2 * length b"
  by (induction b) (simp_all add: ObjectId_str_def)

lemma ObjectId_generate_length: "length (ObjectId_generate w) = 12"
  by (simp add: ObjectId_generate_def)

lemma bson_datetime_eq_iff: "bson_datetime a = bson_datetime b \<longleftrightarrow> a div 1000 = b div 1000"
  by (simp add: bson_datetime_def)

section \<open>An update with no field\<close>

text \<open>
  C7.  For a record that exists, an update request in which every field is absent
  returns the record as it is stored and leaves the collection, and so the record with
  its \<^verbatim>\<open>updated_at\<close>, as it was.
\<close>

theorem empty_update_noop:
  "get_todo coll tid = Some d \<Longrightarrow> update_dict_empty u \<Longrightarrow>
     update_todo coll now tid u = (Some d, coll)"
  by (auto simp: update_todo_def get_todo_def split: option.splits if_splits)

theorem empty_update_noop_witness:
  "get_todo [milk, eggs] eggs_id = Some eggs \<and> update_dict_empty no_update \<and>
   update_todo [milk, eggs] 9000 eggs_id no_update = (Some eggs, [milk, eggs])"
proof -
  have e: "update_dict_empty no_update" by (simp add: update_dict_empty_def no_update_def)
  show ?thesis using empty_update_noop [OF get_todo_eggs e, of 9000] get_todo_eggs e by simp
qed

section \<open>Create\<close>

text \<open>
  C2, as the code has it.  When the identifier the driver generates is new to the
  collection, \<open>create_todo\<close> returns the stored record: its identifier renders as 24
  characters, so it is not empty; \<^verbatim>\<open>created_at\<close> is the first reading of the clock and
  \<^verbatim>\<open>updated_at\<close> the second, each rounded down to the millisecond, and the two are equal
  exactly when both readings fall in the same millisecond.
\<close>

theorem create_todo_record:
  "find_one coll (ObjectId_generate w) = None \<Longrightarrow>
     \<exists>r. create_todo coll w now1 now2 t = Inr (r, coll @ [r]) \<and>
         ObjectId_str (oid r) \<noteq> [] \<and> length (ObjectId_str (oid r)) = 24 \<and>
         created_at r = bson_datetime now1 \<and> updated_at r = bson_datetime now2 \<and>
         (created_at r = updated_at r \<longleftrightarrow> now1 div 1000 = now2 div 1000)"
proof -
  assume fresh: "find_one coll (ObjectId_generate w) = None"
  define r where "r = todo_dict t (ObjectId_generate w) now1 now2"
  have o: "oid r = ObjectId_generate w" by (simp add: r_def todo_dict_def)
  have ins: "insert_one coll r = Inr (coll @ [r])" using fresh o by (simp add: insert_one_def)
  have readback: "find_one (coll @ [r]) (ObjectId_generate w) = Some r"
    using find_one_append_new [of coll r] fresh o by simp
  have c: "create_todo coll w now1 now2 t = Inr (r, coll @ [r])"
    using ins readback by (simp add: create_todo_def Let_def r_def [symmetric])
  have len: "length (ObjectId_str (oid r)) = 24"
    by (simp add: o ObjectId_str_length ObjectId_generate_length)
  then have ne: "ObjectId_str (oid r) \<noteq> []" by auto
  have ts: "created_at r = bson_datetime now1" "updated_at r = bson_datetime now2"
    by (simp_all add: r_def todo_dict_def)
  show ?thesis using c len ne ts by (intro exI [of _ r]) (simp add: bson_datetime_eq_iff)
qed

theorem create_todo_record_witness:
  "find_one [] (ObjectId_generate 7) = None \<and>
   (\<exists>r. create_todo [] 7 5000100 5000900 milk_request = Inr (r, [r]) \<and>
        ObjectId_str (oid r) \<noteq> [] \<and> created_at r = 5000000 \<and> updated_at r = 5000000)"
proof -
  have fresh: "find_one [] (ObjectId_generate 7) = None" by (simp add: find_one_def)
  show ?thesis
    using create_todo_record [OF fresh, of 5000100 5000900 milk_request] fresh
    by (auto simp: bson_datetime_def)
qed

text \<open>
  The claim as the specification states it fails when the clock passes a millisecond
  between the two readings: a valid request, readings 999 and 1001 microseconds.
\<close>

theorem create_todo_timestamps_differ:
  "TodoCreate_valid milk_request \<and>
   create_todo [] 1 999 1001 milk_request = Inr (milk_created, [milk_created]) \<and>
   created_at milk_created = 0 \<and> updated_at milk_created = 1000"
  by (simp add: TodoCreate_valid_def milk_request_def priority_pattern_def create_todo_def
        insert_one_def find_one_def milk_created_def todo_dict_def bson_datetime_def Let_def)

section \<open>Update and the timestamp\<close>

text \<open>
  C3, as the code has it.  For a record that exists, a request with no field present
  returns the record and leaves the collection as it was; a request with at least one
  field present stores the record with those fields set and \<^verbatim>\<open>updated_at\<close> set to the
  reading of the clock, whether or not a value differs from the one stored.
\<close>

theorem update_refreshes_updated_at:
  "get_todo coll tid = Some d \<Longrightarrow>
     (update_dict_empty u \<longrightarrow> update_todo coll now tid u = (Some d, coll)) \<and>
     (\<not> update_dict_empty u \<longrightarrow>
        get_todo (snd (update_todo coll now tid u)) tid = Some (set_fields u now d) \<and>
        updated_at (set_fields u now d) = bson_datetime now)"
proof -
  assume ex: "get_todo coll tid = Some d"
  from ex obtain i where v: "is_valid tid" and i: "ObjectId tid = Some i"
    and f: "find_one coll i = Some d"
    by (auto simp: get_todo_Some_iff)
  have same_oid: "\<And>x. oid (set_fields u now x) = oid x" by (simp add: set_fields_def)
  have stored: "find_one (snd (update_one coll i (set_fields u now))) i = Some (set_fields u now d)"
    using update_one_find [of "set_fields u now" coll i i, OF same_oid] f by simp
  have a: "update_todo coll now tid u = (Some d, coll)" if "update_dict_empty u"
    using that v ex by (simp add: update_todo_def)
  have b: "get_todo (snd (update_todo coll now tid u)) tid = Some (set_fields u now d)"
    if "\<not> update_dict_empty u"
    using that v i stored by (simp add: update_todo_def get_todo_def case_prod_beta)
  have c: "updated_at (set_fields u now d) = bson_datetime now" by (simp add: set_fields_def)
  show ?thesis using a b c by simp
qed

theorem update_refreshes_updated_at_witness:
  "get_todo [milk, eggs] eggs_id = Some eggs \<and> \<not> update_dict_empty raise_priority \<and>
   get_todo (snd (update_todo [milk, eggs] 7000500 eggs_id raise_priority)) eggs_id =
     Some (set_fields raise_priority 7000500 eggs) \<and>
   updated_at (set_fields raise_priority 7000500 eggs) = 7000000"
proof -
  have n: "\<not> update_dict_empty raise_priority"
    by (simp add: update_dict_empty_def raise_priority_def)
  show ?thesis
    using update_refreshes_updated_at [OF get_todo_eggs, of raise_priority 7000500] n get_todo_eggs
    by (simp add: bson_datetime_def)
qed

text \<open>
  The claim as the specification states it fails: the only field present, the title,
  equals the stored title, and \<^verbatim>\<open>updated_at\<close> moves from 1000 to 5000000.
\<close>

theorem update_same_value_refreshes:
  "get_todo [milk, eggs] milk_id = Some milk \<and>
   upd_title same_title = Some (title milk) \<and>
   upd_description same_title = None \<and> upd_completed same_title = None \<and>
   upd_priority same_title = None \<and> upd_due_date same_title = None \<and>
   upd_tags same_title = None \<and>
   updated_at milk = 1000 \<and>
   update_todo [milk, eggs] 5000000 milk_id same_title =
     (Some (milk\<lparr>updated_at := 5000000\<rparr>), [milk\<lparr>updated_at := 5000000\<rparr>, eggs])"
proof -
  have t: "upd_title same_title = Some (title milk)" by (simp add: same_title_def milk_def)
  have n: "\<not> update_dict_empty same_title" by (simp add: update_dict_empty_def same_title_def)
  have s: "set_fields same_title 5000000 milk = milk\<lparr>updated_at := 5000000\<rparr>"
    by (simp add: set_fields_def same_title_def no_update_def milk_def bson_datetime_def)
  have ne: "milk\<lparr>updated_at := 5000000\<rparr> \<noteq> milk" by (simp add: milk_def)
  have g: "get_todo [milk\<lparr>updated_at := 5000000\<rparr>, eggs] milk_id = Some (milk\<lparr>updated_at := 5000000\<rparr>)"
    using is_valid_milk_id ObjectId_milk_id by (simp add: get_todo_def find_one_def)
  have u: "update_todo [milk, eggs] 5000000 milk_id same_title =
     (Some (milk\<lparr>updated_at := 5000000\<rparr>), [milk\<lparr>updated_at := 5000000\<rparr>, eggs])"
    using is_valid_milk_id ObjectId_milk_id n s ne g by (simp add: update_todo_def)
  show ?thesis using get_todo_milk t u by (simp add: same_title_def no_update_def milk_def)
qed

section \<open>Toggle\<close>

text \<open>
  C10.  For a record that exists, \<open>toggle_todo\<close> returns and stores the record with
  \<^verbatim>\<open>completed\<close> negated and \<^verbatim>\<open>updated_at\<close> set to the reading of the clock; the identifier,
  title, description, priority, due date, tags and \<^verbatim>\<open>created_at\<close> are the ones it had, and
  no other document changes.  A second toggle returns the record with \<^verbatim>\<open>completed\<close> as it
  was at the start.
\<close>

theorem toggle_frame:
  assumes ex: "get_todo coll tid = Some d"
  shows "\<exists>d1 c1 d2 c2.
     toggle_todo coll t1 tid = (Some d1, c1) \<and>
     d1 = d\<lparr>completed := \<not> completed d, updated_at := bson_datetime t1\<rparr> \<and>
     oid d1 = oid d \<and> title d1 = title d \<and> description d1 = description d \<and>
     priority d1 = priority d \<and> due_date d1 = due_date d \<and> tags d1 = tags d \<and>
     created_at d1 = created_at d \<and>
     get_todo c1 tid = Some d1 \<and>
     length c1 = length coll \<and>
     (\<forall>j. j \<noteq> oid d \<longrightarrow> find_one c1 j = find_one coll j) \<and>
     toggle_todo c1 t2 tid = (Some d2, c2) \<and>
     completed d2 = completed d"
proof -
  from ex obtain i where v: "is_valid tid" and i: "ObjectId tid = Some i"
    and f: "find_one coll i = Some d"
    by (auto simp: get_todo_Some_iff)
  have oi: "oid d = i" using f by (rule find_one_oid)
  define g1 where "g1 = (\<lambda>x::todo. x\<lparr>completed := \<not> completed d, updated_at := bson_datetime t1\<rparr>)"
  define c1 where "c1 = snd (update_one coll i g1)"
  define d1 where "d1 = g1 d"
  have g1_oid: "\<And>x. oid (g1 x) = oid x" by (simp add: g1_def)
  have ne1: "g1 d \<noteq> d"
  proof
    assume "g1 d = d"
    then have "completed (g1 d) = completed d" by simp
    then show False by (simp add: g1_def)
  qed
  have m1: "fst (update_one coll i g1) = 1" using update_one_found [OF f, of g1] ne1 by simp
  have f1: "find_one c1 j = (if j = i then Some d1 else find_one coll j)" for j
    unfolding c1_def d1_def using update_one_find [of g1 coll i j, OF g1_oid] f by simp
  have gt1: "get_todo c1 tid = Some d1" using v i f1 [of i] by (simp add: get_todo_def)
  have t1: "toggle_todo coll t1 tid = (Some d1, c1)"
    using v i ex m1 gt1
    by (simp add: toggle_todo_def Let_def g1_def [symmetric] c1_def case_prod_beta)
  define g2 where "g2 = (\<lambda>x::todo. x\<lparr>completed := \<not> completed d1, updated_at := bson_datetime t2\<rparr>)"
  define c2 where "c2 = snd (update_one c1 i g2)"
  define d2 where "d2 = g2 d1"
  have g2_oid: "\<And>x. oid (g2 x) = oid x" by (simp add: g2_def)
  have fd1: "find_one c1 i = Some d1" using f1 [of i] by simp
  have ne2: "g2 d1 \<noteq> d1"
  proof
    assume "g2 d1 = d1"
    then have "completed (g2 d1) = completed d1" by simp
    then show False by (simp add: g2_def)
  qed
  have m2: "fst (update_one c1 i g2) = 1" using update_one_found [OF fd1, of g2] ne2 by simp
  have f2: "find_one c2 i = Some d2"
    unfolding c2_def d2_def using update_one_find [of g2 c1 i i, OF g2_oid] fd1 by simp
  have gt2: "get_todo c2 tid = Some d2" using v i f2 by (simp add: get_todo_def)
  have t2: "toggle_todo c1 t2 tid = (Some d2, c2)"
    using v i gt1 m2 gt2
    by (simp add: toggle_todo_def Let_def g2_def [symmetric] c2_def case_prod_beta)
  have len: "length c1 = length coll" by (simp add: c1_def update_one_length)
  have restored: "completed d2 = completed d" by (simp add: d2_def g2_def d1_def g1_def)
  have fields: "d1 = d\<lparr>completed := \<not> completed d, updated_at := bson_datetime t1\<rparr>"
    by (simp add: d1_def g1_def)
  have other: "\<forall>j. j \<noteq> oid d \<longrightarrow> find_one c1 j = find_one coll j" using f1 oi by simp
  show ?thesis
    using t1 t2 fields gt1 len other restored
    by (intro exI [of _ d1] exI [of _ c1] exI [of _ d2] exI [of _ c2]) simp
qed

theorem toggle_frame_witness:
  "get_todo [milk, eggs] milk_id = Some milk \<and>
   (\<exists>d1 c1 d2 c2.
      toggle_todo [milk, eggs] 4000000 milk_id = (Some d1, c1) \<and>
      d1 = milk\<lparr>completed := True, updated_at := 4000000\<rparr> \<and>
      title d1 = ''Buy Milk'' \<and>
      toggle_todo c1 6000000 milk_id = (Some d2, c2) \<and>
      completed d2 = False)"
proof -
  have c: "completed milk = False" and t: "title milk = ''Buy Milk''" by (simp_all add: milk_def)
  show ?thesis
    using toggle_frame [OF get_todo_milk, of 4000000 6000000] get_todo_milk c t
    by (simp add: bson_datetime_def) blast
qed

section \<open>Facts about identifiers\<close>








lemma stored_ids_empty: "stored_ids []"
  by (simp add: stored_ids_def)


lemma stored_ids_create:
  "stored_ids coll \<Longrightarrow> create_todo coll w now1 now2 t = Inr (r, coll') \<Longrightarrow> stored_ids coll'"
  by (auto simp: create_todo_def insert_one_def Let_def stored_ids_def todo_dict_def
        ObjectId_generate_length split: if_splits option.splits)

lemma stored_ids_update_one:
  "stored_ids coll \<Longrightarrow> (\<And>d. oid (f d) = oid d) \<Longrightarrow> stored_ids (snd (update_one coll i f))"
  by (induction coll) (auto simp: stored_ids_def split: prod.splits)

lemma stored_ids_delete_one: "stored_ids coll \<Longrightarrow> stored_ids (snd (delete_one coll i))"
  by (induction coll) (auto simp: stored_ids_def split: prod.splits)

lemma stored_ids_update: "stored_ids coll \<Longrightarrow> stored_ids (snd (update_todo coll now tid u))"
  using stored_ids_update_one [of coll "set_fields u now"]
  by (auto simp: update_todo_def set_fields_def case_prod_beta split: option.splits)

lemma stored_ids_delete: "stored_ids coll \<Longrightarrow> stored_ids (snd (delete_todo coll tid))"
  using stored_ids_delete_one [of coll]
  by (auto simp: delete_todo_def case_prod_beta split: option.splits)

lemma stored_ids_toggle: "stored_ids coll \<Longrightarrow> stored_ids (snd (toggle_todo coll now tid))"
  by (auto simp: toggle_todo_def case_prod_beta Let_def split: option.splits
        intro!: stored_ids_update_one)

section \<open>Identifiers that are not valid\<close>



section \<open>Facts about queries\<close>









lemma find_docs_refused:
  "t \<noteq> [] \<Longrightarrow> rx t = None \<Longrightarrow> find_docs rx coll (build_filter c p (Some t)) = Inl OperationFailure"
  by (simp add: find_docs_def build_filter_def)


lemma length_sort_desc: "length (sort_desc k ds) = length ds"
  by (simp add: sort_desc_def)

lemma get_todos_eq:
  "find_docs rx coll (build_filter c p s) = Inr ds \<Longrightarrow>
   0 \<le> skip \<Longrightarrow> skip \<le> int64_max \<Longrightarrow> 0 \<le> lim \<Longrightarrow> lim \<le> int64_max \<Longrightarrow>
     get_todos rx coll skip lim c p s =
       Inr (take (nat lim) (drop (nat skip) (sort_desc created_at ds)))"
  by (simp add: get_todos_def cursor_to_list_def Let_def)

lemma get_todos_count_eq:
  "find_docs rx coll (build_filter c p s) = Inr ds \<Longrightarrow>
     get_todos_count rx coll c p s = Inr (int (length ds))"
  by (simp add: get_todos_count_def count_documents_def)

lemma get_todos_count_Inr:
  "get_todos_count rx coll c p s = Inr n \<Longrightarrow>
     \<exists>ds. find_docs rx coll (build_filter c p s) = Inr ds \<and> n = int (length ds)"
  by (cases "find_docs rx coll (build_filter c p s)")
     (auto simp: get_todos_count_def count_documents_def)

lemma get_todos_count_Inl:
  "get_todos_count rx coll c p s = Inl e \<Longrightarrow>
     e = OperationFailure \<and> (\<exists>pat. s = Some pat \<and> pat \<noteq> [] \<and> rx pat = None)"
  by (auto simp: get_todos_count_def count_documents_def find_docs_def build_filter_def
        split: option.splits if_splits)

lemma find_docs_length: "find_docs rx coll fd = Inr ds \<Longrightarrow> length ds \<le> length coll"
  by (auto simp: find_docs_def split: option.splits)









lemma find_docs_all:
  "find_docs rx [milk, eggs] (build_filter None (Some []) None) = Inr [milk, eggs]"
  by (simp add: find_docs_def build_filter_def doc_matches_def)

lemma find_docs_all_absent:
  "find_docs rx [milk, eggs] (build_filter None None None) = Inr [milk, eggs]"
  by (simp add: find_docs_def build_filter_def doc_matches_def)

lemma sort_milk_eggs: "sort_desc created_at [milk, eggs] = [eggs, milk]"
  by (simp add: sort_desc_def milk_def eggs_def)

lemma count_pending: "get_todos_count rx [milk, eggs] (Some False) None None = Inr 1"
  by (simp add: get_todos_count_def count_documents_def find_docs_def build_filter_def
        doc_matches_def milk_def eggs_def)

lemma small_range: "(0::int) \<le> 0 \<and> 0 \<le> int64_max \<and> (0::int) \<le> 10 \<and> 10 \<le> int64_max"
  by (simp add: int64_max_def)

lemma doc_matches_split:
  "doc_matches (build_filter c p s) mo d =
     (((case c of None \<Rightarrow> True | Some b \<Rightarrow> completed d = b) \<and>
       (case p of None \<Rightarrow> True | Some q \<Rightarrow> q = [] \<or> priority d = q)) \<and>
      doc_matches (build_filter None None s) mo d)"
  by (cases c; cases p) (auto simp: doc_matches_def build_filter_def)

lemma f_or_regex_build_filter:
  "f_or_regex (build_filter c p s) = f_or_regex (build_filter None None s)"
  by (simp add: build_filter_def)

lemma find_docs_split:
  "find_docs rx coll (build_filter c p s) =
     map_sum id (filter (\<lambda>d. (case c of None \<Rightarrow> True | Some b \<Rightarrow> completed d = b) \<and>
                            (case p of None \<Rightarrow> True | Some q \<Rightarrow> q = [] \<or> priority d = q)))
       (find_docs rx coll (build_filter None None s))"
proof -
  have eq: "filter (doc_matches (build_filter c p s) mo) coll =
        filter (\<lambda>d. (case c of None \<Rightarrow> True | Some b \<Rightarrow> completed d = b) \<and>
                     (case p of None \<Rightarrow> True | Some q \<Rightarrow> q = [] \<or> priority d = q))
          (filter (doc_matches (build_filter None None s) mo) coll)" for mo
    by (induction coll) (simp_all add: doc_matches_split [of c p s])
  show ?thesis
  proof (cases "f_or_regex (build_filter None None s)")
    case None
    then show ?thesis
      unfolding find_docs_def f_or_regex_build_filter [of c p s] by (simp add: eq)
  next
    case (Some pat)
    then show ?thesis
      unfolding find_docs_def f_or_regex_build_filter [of c p s]
      by (cases "rx pat") (simp_all add: eq)
  qed
qed

lemma get_todos_map:
  assumes "0 \<le> skip" "skip \<le> int64_max" "0 \<le> lim" "lim \<le> int64_max"
  shows "get_todos rx coll skip lim c p s =
           map_sum id (\<lambda>ds. take (nat lim) (drop (nat skip) (sort_desc created_at ds)))
             (find_docs rx coll (build_filter c p s))"
  using assms
  by (cases "find_docs rx coll (build_filter c p s)")
     (simp_all add: get_todos_def cursor_to_list_def Let_def)

lemma sort_desc_length_drop: "length ds \<le> k \<Longrightarrow> drop k (sort_desc key ds) = []"
  by (simp add: sort_desc_def)

lemma offset_positive: "1 \<le> lim \<Longrightarrow> (0 < (pg - 1) * lim) = (1 < (pg::int))"
  by (auto simp: zero_less_mult_iff)

lemma get_todos_negative_limit: "lim < 0 \<Longrightarrow> get_todos rx coll skip lim c p s = Inl ValueError"
  by (simp add: get_todos_def cursor_to_list_def)

lemma get_todos_overflow:
  "0 \<le> skip \<Longrightarrow> 0 \<le> lim \<Longrightarrow> int64_max < skip \<or> int64_max < lim \<Longrightarrow>
     get_todos rx coll skip lim c p s = Inl OverflowError"
  by (auto simp: get_todos_def cursor_to_list_def)

lemma get_todos_count_find_Inl:
  "get_todos_count rx coll c p s = Inl e \<Longrightarrow> find_docs rx coll (build_filter c p s) = Inl e"
  by (cases "find_docs rx coll (build_filter c p s)")
     (simp_all add: get_todos_count_def count_documents_def)

lemma get_todos_refused:
  "get_todos_count rx coll c p s = Inl e \<Longrightarrow>
   0 \<le> skip \<Longrightarrow> skip \<le> int64_max \<Longrightarrow> 0 \<le> lim \<Longrightarrow> lim \<le> int64_max \<Longrightarrow>
     get_todos rx coll skip lim c p s = Inl e"
  using get_todos_map [of skip lim rx coll c p s] get_todos_count_find_Inl [of rx coll c p s e]
  by simp

lemma count_five: "get_todos_count rx five_todos None None None = Inr 5"
  by (simp add: get_todos_count_def count_documents_def find_docs_def build_filter_def
        doc_matches_def five_todos_def)

lemma count_empty: "get_todos_count rx [] c p None = Inr 0"
  by (simp add: get_todos_count_def count_documents_def find_docs_def build_filter_def)

lemma sample_refuses_paren: "sample_engine ''('' = None"
  by (simp add: sample_engine_def metachars_def)

section \<open>Text search\<close>




section \<open>Count and List\<close>

text \<open>
  C5.  For every engine, every combination of filters and every collection the store
  can hold: when Count returns \<open>n\<close>, List with offset 0, limit \<open>n\<close> and the same filters
  returns, and the number of its records is \<open>n\<close>; Count fails only when the store refuses
  the search string.
\<close>

theorem count_matches_list:
  assumes size: "int (length coll) \<le> int64_max"
  shows "case get_todos_count rx coll c p s of
           Inr n \<Rightarrow> (\<exists>ts. get_todos rx coll 0 n c p s = Inr ts \<and> int (length ts) = n)
         | Inl e \<Rightarrow> e = OperationFailure \<and> (\<exists>pat. s = Some pat \<and> pat \<noteq> [] \<and> rx pat = None)"
proof (cases "get_todos_count rx coll c p s")
  case (Inl e)
  then show ?thesis using get_todos_count_Inl [OF Inl] by simp
next
  case (Inr n)
  then obtain ds where ds: "find_docs rx coll (build_filter c p s) = Inr ds"
    and n: "n = int (length ds)"
    using get_todos_count_Inr by blast
  have le: "n \<le> int64_max" using find_docs_length [OF ds] n size by simp
  have "get_todos rx coll 0 n c p s = Inr (take (nat n) (drop (nat 0) (sort_desc created_at ds)))"
    using get_todos_eq [OF ds, of 0 n] n le by (simp add: int64_max_def)
  then show ?thesis using Inr n by (simp add: length_sort_desc)
qed

theorem count_matches_list_witness:
  "int (length [milk, eggs]) \<le> int64_max \<and>
   get_todos_count sample_engine [milk, eggs] (Some False) None None = Inr 1 \<and>
   (\<exists>ts. get_todos sample_engine [milk, eggs] 0 1 (Some False) None None = Inr ts \<and>
         int (length ts) = 1)"
proof -
  have s: "int (length [milk, eggs]) \<le> int64_max" by (simp add: int64_max_def)
  show ?thesis
    using count_matches_list [OF s, where rx = sample_engine and c = "Some False" and p = None
        and s = None] s
    by (simp add: count_pending)
qed

section \<open>Filters that are absent and filters that are supplied\<close>

text \<open>
  C8, as the code has it.  For every engine and every search, Count and List are the
  query with the text filter alone followed by the completed filter and the priority
  filter: an absent completed filter and an absent priority filter keep every record; a
  supplied completed filter, \<open>False\<close> as well as \<open>True\<close>, keeps the records with that
  value; a supplied priority that is not the empty string keeps the records with that
  priority; a supplied priority that is the empty string keeps every record, as an absent
  one does.  With no search the text filter alone selects the whole collection.
\<close>

theorem filters_absent_or_supplied:
  "get_todos_count rx coll c p s =
     map_sum id
       (\<lambda>ds. int (length (filter
          (\<lambda>d. (case c of None \<Rightarrow> True | Some b \<Rightarrow> completed d = b) \<and>
                (case p of None \<Rightarrow> True | Some q \<Rightarrow> q = [] \<or> priority d = q)) ds)))
       (find_docs rx coll (build_filter None None s)) \<and>
   (0 \<le> skip \<longrightarrow> skip \<le> int64_max \<longrightarrow> 0 \<le> lim \<longrightarrow> lim \<le> int64_max \<longrightarrow>
      get_todos rx coll skip lim c p s =
        map_sum id
          (\<lambda>ds. take (nat lim) (drop (nat skip) (sort_desc created_at (filter
             (\<lambda>d. (case c of None \<Rightarrow> True | Some b \<Rightarrow> completed d = b) \<and>
                   (case p of None \<Rightarrow> True | Some q \<Rightarrow> q = [] \<or> priority d = q)) ds))))
          (find_docs rx coll (build_filter None None s))) \<and>
   find_docs rx coll (build_filter None None None) = Inr coll"
proof -
  have a: "get_todos_count rx coll c p s =
     map_sum id
       (\<lambda>ds. int (length (filter
          (\<lambda>d. (case c of None \<Rightarrow> True | Some b \<Rightarrow> completed d = b) \<and>
                (case p of None \<Rightarrow> True | Some q \<Rightarrow> q = [] \<or> priority d = q)) ds)))
       (find_docs rx coll (build_filter None None s))"
    unfolding get_todos_count_def count_documents_def find_docs_split [of rx coll c p s]
    by (cases "find_docs rx coll (build_filter None None s)") simp_all
  have b: "get_todos rx coll skip lim c p s =
        map_sum id
          (\<lambda>ds. take (nat lim) (drop (nat skip) (sort_desc created_at (filter
             (\<lambda>d. (case c of None \<Rightarrow> True | Some b \<Rightarrow> completed d = b) \<and>
                   (case p of None \<Rightarrow> True | Some q \<Rightarrow> q = [] \<or> priority d = q)) ds))))
          (find_docs rx coll (build_filter None None s))"
    if "0 \<le> skip" "skip \<le> int64_max" "0 \<le> lim" "lim \<le> int64_max"
    unfolding get_todos_map [OF that] find_docs_split [of rx coll c p s]
    by (cases "find_docs rx coll (build_filter None None s)") simp_all
  have n: "find_docs rx coll (build_filter None None None) = Inr coll"
    by (simp add: find_docs_def build_filter_def doc_matches_def)
  from a b n show ?thesis by blast
qed

theorem filters_absent_or_supplied_witness:
  "(0::int) \<le> 0 \<and> 0 \<le> int64_max \<and> (0::int) \<le> 10 \<and> 10 \<le> int64_max \<and>
   get_todos_count sample_engine [milk, eggs] (Some False) None None = Inr 1 \<and>
   get_todos sample_engine [milk, eggs] 0 10 (Some False) None None = Inr [milk] \<and>
   get_todos_count sample_engine [milk, eggs] None None None = Inr 2 \<and>
   get_todos_count sample_engine [milk, eggs] None (Some ''low'') None = Inr 1"
proof -
  have c: "completed milk = False" "completed eggs = True"
    and p: "priority milk = ''high''" "priority eggs = ''low''"
    by (simp_all add: milk_def eggs_def)
  show ?thesis
    using filters_absent_or_supplied [where rx = sample_engine and coll = "[milk, eggs]"
        and c = "Some False" and p = None and s = None and skip = 0 and lim = 10]
      filters_absent_or_supplied [where rx = sample_engine and coll = "[milk, eggs]"
        and c = None and p = None and s = None and skip = 0 and lim = 10]
      filters_absent_or_supplied [where rx = sample_engine and coll = "[milk, eggs]"
        and c = None and p = "Some ''low''" and s = None and skip = 0 and lim = 10]
      small_range c p
    by (simp add: sort_desc_def)
qed

text \<open>
  The claim as the specification states it fails for the priority filter: supplied as
  the empty string it is treated as omitted, and both records come back although
  neither has the empty string as its priority.
\<close>

theorem empty_priority_is_omitted:
  "get_todos_count sample_engine [milk, eggs] None (Some []) None = Inr 2 \<and>
   get_todos_count sample_engine [milk, eggs] None None None = Inr 2 \<and>
   get_todos sample_engine [milk, eggs] 0 10 None (Some []) None = Inr [eggs, milk] \<and>
   priority milk \<noteq> [] \<and> priority eggs \<noteq> []"
  using get_todos_count_eq [OF find_docs_all] get_todos_count_eq [OF find_docs_all_absent]
    get_todos_eq [OF find_docs_all, of 0 10] small_range
  by (simp add: sort_milk_eggs) (simp add: milk_def eggs_def)

section \<open>Pagination\<close>

text \<open>
  C9, as the code has it.  For a page number of at least 1 and every limit, filter
  combination and engine.  When the limit is not negative, offset and limit fit 64 bits
  and Count returns \<open>n\<close>, the tool returns the page with the records of List at offset
  \<open>(page - 1) * limit\<close>, the total \<open>n\<close>, \<open>has_next = (offset + limit < n)\<close> and
  \<open>has_prev = (1 < page)\<close>, and the REST route returns the same page when the limit is
  from 1 to 100 and the priority is absent or one of the three values.  When the offset
  is at or beyond the total the records are none and \<open>has_next\<close> is false; for a limit of
  at least 1, \<open>has_prev\<close> is true exactly when the offset is positive.  Otherwise no page
  is computed: the tool answers \<^verbatim>\<open>ValueError\<close> for a negative limit, both answer
  \<^verbatim>\<open>OverflowError\<close> beyond 64 bits and the store's error for a search it refuses, and the
  REST route answers 422 outside its ranges.
\<close>

theorem pagination_contract:
  assumes pg: "1 \<le> pg"
  shows "\<exists>ts.
    (0 \<le> lim \<longrightarrow> (pg - 1) * lim \<le> int64_max \<longrightarrow> lim \<le> int64_max \<longrightarrow>
     get_todos_count rx coll c pr s = Inr n \<longrightarrow>
       get_todos rx coll ((pg - 1) * lim) lim c pr s = Inr ts \<and>
       mcp_get_todos rx coll pg lim c pr s =
         Inr \<lparr> todos = ts, total = n, page = pg, limit = lim,
               has_next = ((pg - 1) * lim + lim < n), has_prev = (1 < pg) \<rparr> \<and>
       (1 \<le> lim \<longrightarrow> lim \<le> 100 \<longrightarrow> (case pr of None \<Rightarrow> True | Some q \<Rightarrow> priority_pattern q) \<longrightarrow>
          get_todos_route rx coll (Some pg) (Some lim) c pr s =
            Response 200 (PageBody
              \<lparr> todos = ts, total = n, page = pg, limit = lim,
                has_next = ((pg - 1) * lim + lim < n), has_prev = (1 < pg) \<rparr>)) \<and>
       (n \<le> (pg - 1) * lim \<longrightarrow> ts = [] \<and> \<not> ((pg - 1) * lim + lim < n)) \<and>
       (1 \<le> lim \<longrightarrow> (1 < pg) = (0 < (pg - 1) * lim))) \<and>
    (lim < 0 \<longrightarrow> mcp_get_todos rx coll pg lim c pr s = Inl ValueError) \<and>
    (0 \<le> lim \<longrightarrow> int64_max < (pg - 1) * lim \<or> int64_max < lim \<longrightarrow>
       mcp_get_todos rx coll pg lim c pr s = Inl OverflowError) \<and>
    (0 \<le> lim \<longrightarrow> (pg - 1) * lim \<le> int64_max \<longrightarrow> lim \<le> int64_max \<longrightarrow>
     get_todos_count rx coll c pr s = Inl e \<longrightarrow>
       mcp_get_todos rx coll pg lim c pr s = Inl e) \<and>
    (lim < 1 \<or> 100 < lim \<or> (case pr of None \<Rightarrow> False | Some q \<Rightarrow> \<not> priority_pattern q) \<longrightarrow>
       get_todos_route rx coll (Some pg) (Some lim) c pr s = Response 422 ValidationErrors) \<and>
    (1 \<le> lim \<longrightarrow> lim \<le> 100 \<longrightarrow> (case pr of None \<Rightarrow> True | Some q \<Rightarrow> priority_pattern q) \<longrightarrow>
     int64_max < (pg - 1) * lim \<longrightarrow>
       get_todos_route rx coll (Some pg) (Some lim) c pr s =
         Response 500 (ErrorDetail OverflowError)) \<and>
    (1 \<le> lim \<longrightarrow> lim \<le> 100 \<longrightarrow> (case pr of None \<Rightarrow> True | Some q \<Rightarrow> priority_pattern q) \<longrightarrow>
     (pg - 1) * lim \<le> int64_max \<longrightarrow> get_todos_count rx coll c pr s = Inl e \<longrightarrow>
       get_todos_route rx coll (Some pg) (Some lim) c pr s = Response 500 (ErrorDetail e))"
proof -
  define skip where "skip = (pg - 1) * lim"
  define ok where "ok = (case pr of None \<Rightarrow> True | Some q \<Rightarrow> priority_pattern q)"
  have bad_iff: "(case pr of None \<Rightarrow> False | Some q \<Rightarrow> \<not> priority_pattern q) = (\<not> ok)"
    by (cases pr) (simp_all add: ok_def)
  have skip0: "0 \<le> skip" if "0 \<le> lim" using pg that by (simp add: skip_def)
  define ts where "ts = (case get_todos rx coll skip lim c pr s of Inr xs \<Rightarrow> xs | Inl e \<Rightarrow> [])"
  define r where "r = \<lparr> todos = ts, total = n, page = pg, limit = lim,
                        has_next = (skip + lim < n), has_prev = (1 < pg) \<rparr>"
  have lim100: "lim \<le> int64_max" if "lim \<le> 100" using that by (simp add: int64_max_def)
  have page_case: "get_todos rx coll skip lim c pr s = Inr ts \<and>
       mcp_get_todos rx coll pg lim c pr s = Inr r \<and>
       (1 \<le> lim \<longrightarrow> lim \<le> 100 \<longrightarrow> ok \<longrightarrow>
          get_todos_route rx coll (Some pg) (Some lim) c pr s = Response 200 (PageBody r)) \<and>
       (n \<le> skip \<longrightarrow> ts = [] \<and> \<not> (skip + lim < n)) \<and>
       (1 \<le> lim \<longrightarrow> (1 < pg) = (0 < skip))"
    if l0: "0 \<le> lim" and sm: "skip \<le> int64_max" and lm: "lim \<le> int64_max"
      and cnt: "get_todos_count rx coll c pr s = Inr n"
  proof -
    from cnt obtain ds where ds: "find_docs rx coll (build_filter c pr s) = Inr ds"
      and n: "n = int (length ds)"
      using get_todos_count_Inr by blast
    have gt0: "get_todos rx coll skip lim c pr s =
                 Inr (take (nat lim) (drop (nat skip) (sort_desc created_at ds)))"
      using get_todos_eq [OF ds skip0 [OF l0] sm l0 lm] .
    then have tsd: "ts = take (nat lim) (drop (nat skip) (sort_desc created_at ds))"
      by (simp add: ts_def)
    have gt: "get_todos rx coll skip lim c pr s = Inr ts" using gt0 tsd by simp
    have mcp: "mcp_get_todos rx coll pg lim c pr s = Inr r"
      using gt cnt by (simp add: mcp_get_todos_def Let_def skip_def [symmetric] r_def)
    have rest: "get_todos_route rx coll (Some pg) (Some lim) c pr s = Response 200 (PageBody r)"
      if "1 \<le> lim" "lim \<le> 100" "ok"
      using pg that gt cnt bad_iff
      by (simp add: get_todos_route_def Let_def skip_def [symmetric] r_def)
    have beyond: "ts = [] \<and> \<not> (skip + lim < n)" if "n \<le> skip"
    proof -
      have "length ds \<le> nat skip" using that n by simp
      then have "ts = []" by (simp add: tsd sort_desc_length_drop)
      moreover have "\<not> skip + lim < n" using that l0 by simp
      ultimately show ?thesis by simp
    qed
    have prev: "(1 < pg) = (0 < skip)" if "1 \<le> lim"
      using offset_positive [OF that, of pg] by (simp add: skip_def)
    show ?thesis using gt mcp rest beyond prev by blast
  qed
  have neg: "mcp_get_todos rx coll pg lim c pr s = Inl ValueError" if "lim < 0"
    using get_todos_negative_limit [OF that, of rx coll skip c pr s]
    by (simp add: mcp_get_todos_def Let_def skip_def [symmetric])
  have ovf: "get_todos rx coll skip lim c pr s = Inl OverflowError"
    if "0 \<le> lim" "int64_max < skip \<or> int64_max < lim"
    using get_todos_overflow [OF skip0 [OF that(1)] that] .
  have mcp_ovf: "mcp_get_todos rx coll pg lim c pr s = Inl OverflowError"
    if "0 \<le> lim" "int64_max < skip \<or> int64_max < lim"
    using ovf [OF that] by (simp add: mcp_get_todos_def Let_def skip_def [symmetric])
  have refused: "get_todos rx coll skip lim c pr s = Inl e"
    if "0 \<le> lim" "skip \<le> int64_max" "lim \<le> int64_max"
      "get_todos_count rx coll c pr s = Inl e"
    using get_todos_refused [OF that(4) skip0 [OF that(1)] that(2) that(1) that(3)] .
  have mcp_refused: "mcp_get_todos rx coll pg lim c pr s = Inl e"
    if "0 \<le> lim" "skip \<le> int64_max" "lim \<le> int64_max"
      "get_todos_count rx coll c pr s = Inl e"
    using refused [OF that] by (simp add: mcp_get_todos_def Let_def skip_def [symmetric])
  have invalid: "get_todos_route rx coll (Some pg) (Some lim) c pr s = Response 422 ValidationErrors"
    if "lim < 1 \<or> 100 < lim \<or> \<not> ok"
    using that bad_iff by (auto simp: get_todos_route_def Let_def)
  have rest_ovf: "get_todos_route rx coll (Some pg) (Some lim) c pr s =
         Response 500 (ErrorDetail OverflowError)"
    if "1 \<le> lim" "lim \<le> 100" "ok" "int64_max < skip"
  proof -
    have "get_todos rx coll skip lim c pr s = Inl OverflowError" using ovf that by simp
    then show ?thesis
      using pg that bad_iff by (simp add: get_todos_route_def Let_def skip_def [symmetric])
  qed
  have rest_refused: "get_todos_route rx coll (Some pg) (Some lim) c pr s =
         Response 500 (ErrorDetail e)"
    if "1 \<le> lim" "lim \<le> 100" "ok" "skip \<le> int64_max"
      "get_todos_count rx coll c pr s = Inl e"
  proof -
    have "get_todos rx coll skip lim c pr s = Inl e"
      using refused that lim100 by simp
    then show ?thesis
      using pg that bad_iff by (simp add: get_todos_route_def Let_def skip_def [symmetric])
  qed
  show ?thesis
    unfolding skip_def [symmetric] ok_def [symmetric] bad_iff
    using page_case [unfolded r_def] neg mcp_ovf mcp_refused invalid rest_ovf rest_refused
    by (intro exI [of _ ts]) blast
qed

theorem pagination_contract_witness:
  "(1::int) \<le> 2 \<and> get_todos_count sample_engine five_todos None None None = Inr 5 \<and>
   get_todos sample_engine five_todos 10 10 None None None = Inr [] \<and>
   mcp_get_todos sample_engine five_todos 2 10 None None None =
     Inr \<lparr> todos = [], total = 5, page = 2, limit = 10, has_next = False, has_prev = True \<rparr> \<and>
   get_todos_route sample_engine five_todos (Some 2) (Some 10) None None None =
     Response 200 (PageBody
       \<lparr> todos = [], total = 5, page = 2, limit = 10, has_next = False, has_prev = True \<rparr>)"
proof -
  have p: "(1::int) \<le> 2" by simp
  show ?thesis
    using pagination_contract [OF p, where lim = 10 and rx = sample_engine and coll = five_todos
        and c = None and pr = None and s = None and n = 5]
      count_five [of sample_engine]
    by (auto simp: int64_max_def)
qed

text \<open>
  The claim as the specification states it fails on the first page of an empty result,
  where the offset 0 is at the total 0 and \<open>has_prev\<close> is false; and no page is computed
  for a negative limit on the tool, for a limit of 0 or a priority outside the three
  values on the REST route, for an offset beyond 64 bits, or for a search the store
  refuses.
\<close>

theorem pagination_edge_cases:
  "get_todos_count sample_engine [] None None None = Inr 0 \<and>
   get_todos_route sample_engine [] (Some 1) (Some 10) None None None =
     Response 200 (PageBody
       \<lparr> todos = [], total = 0, page = 1, limit = 10, has_next = False, has_prev = False \<rparr>) \<and>
   mcp_get_todos sample_engine [] 1 (- 1) None None None = Inl ValueError \<and>
   get_todos_route sample_engine [] (Some 1) (Some 0) None None None =
     Response 422 ValidationErrors \<and>
   get_todos_route sample_engine [] (Some 9223372036854775809) (Some 1) None None None =
     Response 500 (ErrorDetail OverflowError) \<and>
   get_todos_route sample_engine [] (Some 1) (Some 10) None (Some ''urgent'') None =
     Response 422 ValidationErrors \<and>
   get_todos_route sample_engine [] (Some 1) (Some 10) None None (Some ''('') =
     Response 500 (ErrorDetail OperationFailure)"
proof -
  have a: "get_todos_route sample_engine [] (Some 1) (Some 10) None None None =
     Response 200 (PageBody
       \<lparr> todos = [], total = 0, page = 1, limit = 10, has_next = False, has_prev = False \<rparr>)"
    by (simp add: get_todos_route_def get_todos_def cursor_to_list_def count_empty
          find_docs_def build_filter_def sort_desc_def Let_def int64_max_def)
  have b: "mcp_get_todos sample_engine [] 1 (- 1) None None None = Inl ValueError"
    by (simp add: mcp_get_todos_def get_todos_def cursor_to_list_def Let_def)
  have c: "get_todos_route sample_engine [] (Some 1) (Some 0) None None None =
     Response 422 ValidationErrors"
    by (simp add: get_todos_route_def Let_def)
  have d: "get_todos_route sample_engine [] (Some 9223372036854775809) (Some 1) None None None =
     Response 500 (ErrorDetail OverflowError)"
    by (simp add: get_todos_route_def get_todos_def cursor_to_list_def Let_def int64_max_def)
  have e: "get_todos_route sample_engine [] (Some 1) (Some 10) None (Some ''urgent'') None =
     Response 422 ValidationErrors"
    by (simp add: get_todos_route_def Let_def priority_pattern_def)
  have f: "get_todos_route sample_engine [] (Some 1) (Some 10) None None (Some ''('') =
     Response 500 (ErrorDetail OperationFailure)"
    by (simp add: get_todos_route_def get_todos_def cursor_to_list_def Let_def int64_max_def
          find_docs_def build_filter_def sample_refuses_paren)
  from count_empty [of sample_engine None None] a b c d e f show ?thesis by blast
qed

section \<open>The routes for completed and pending todos\<close>

text \<open>
  C4.  The route \<^verbatim>\<open>/todos/{todo_id}\<close> is declared before \<^verbatim>\<open>/todos/completed\<close> and
  \<^verbatim>\<open>/todos/pending\<close>, so the router hands \<^verbatim>\<open>GET /todos/completed\<close> and
  \<^verbatim>\<open>GET /todos/pending\<close> to \<^verbatim>\<open>get_todo\<close> with the identifier \<^verbatim>\<open>completed\<close> or \<^verbatim>\<open>pending\<close>;
  neither is a valid identifier and the answer is 404, whatever the collection holds.
\<close>

theorem completed_route_shadowed:
  "app coll ev (get_request [''todos'', ''completed'']) =
     (Response 404 (Detail ''Todo not found''), coll) \<and>
   app coll ev (get_request [''todos'', ''pending'']) =
     (Response 404 (Detail ''Todo not found''), coll) \<and>
   resolve GET [''todos'', ''completed''] = Full GetTodo [''completed''] \<and>
   resolve GET [''todos'', ''pending''] = Full GetTodo [''pending'']"
proof -
  have r1: "resolve GET [''todos'', ''completed''] = Full GetTodo [''completed'']"
    by (simp add: resolve_def routes_def)
  have r2: "resolve GET [''todos'', ''pending''] = Full GetTodo [''pending'']"
    by (simp add: resolve_def routes_def)
  have a1: "app coll ev (get_request [''todos'', ''completed'']) =
     (Response 404 (Detail ''Todo not found''), coll)"
    by (simp add: app_def get_request_def r1 path_param_def get_todo_route_def
          get_todo_invalid [OF not_valid_completed])
  have a2: "app coll ev (get_request [''todos'', ''pending'']) =
     (Response 404 (Detail ''Todo not found''), coll)"
    by (simp add: app_def get_request_def r2 path_param_def get_todo_route_def
          get_todo_invalid [OF not_valid_pending])
  from a1 a2 r1 r2 show ?thesis by blast
qed

end
